theory Spec2Isabelle
  imports Main "HOL-Library.Word"
begin

unbundle bit_operations_syntax

section \<open>Seed source flags\<close>

text \<open>
  \<^verbatim>\<open>using Flags = std::uint_least32_t;\<close> and the result type of \<^verbatim>\<open>std::seed_seq\<close>
  (also \<^verbatim>\<open>uint_least32_t\<close>) are 32-bit words.
\<close>

type_synonym Flags = "32 word"
type_synonym result_type = "32 word"

definition kRandomDevice :: Flags where
  "kRandomDevice = 0x00000001"

definition kSystemClock :: Flags where
  "kSystemClock = 0x00000002"

definition kSteadyClock :: Flags where
  "kSteadyClock = 0x00000004"

definition kAll :: Flags where
  "kAll = kRandomDevice OR kSystemClock OR kSteadyClock"

section \<open>The Seq struct and its constructors\<close>

record Seq =
  flags :: Flags

text \<open>\<^verbatim>\<open>constexpr Seq(Flags flags = kAll) noexcept: flags{flags} {}\<close>\<close>

definition Seq_flags :: "Flags \<Rightarrow> Seq" where
  "Seq_flags fl = \<lparr>flags = fl\<rparr>"

definition Seq_default :: Seq where
  "Seq_default = Seq_flags kAll"

text \<open>
  \<^verbatim>\<open>for(this->flags = 0x00000000; it != endIt; ++it) { this->flags |= *it; }\<close>
  The iterator range is the list of the values it yields.
\<close>

fun Seq_range_loop :: "Flags \<Rightarrow> Flags list \<Rightarrow> Flags" where
  "Seq_range_loop fl [] = fl"
| "Seq_range_loop fl (x # xs) = Seq_range_loop (fl OR x) xs"

definition Seq_range :: "Flags list \<Rightarrow> Seq" where
  "Seq_range xs = \<lparr>flags = Seq_range_loop 0x00000000 xs\<rparr>"

text \<open>
  \<^verbatim>\<open>template<typename T> constexpr\<close>
  \<^verbatim>\<open>Seq(std::initializer_list<T> il): Seq{il.begin(), il.end()} {}\<close>
  The target of the delegation is written with braces, so it is chosen by
  list-initialisation: a constructor taking a \<^verbatim>\<open>std::initializer_list\<close> is tried first
  and taken whenever one is viable. This constructor template is viable for the list of
  the two pointers \<^verbatim>\<open>il.begin()\<close> and \<^verbatim>\<open>il.end()\<close> (\<^verbatim>\<open>T\<close> is deduced as their type), so
  the delegation goes to this constructor again, on the list of the two iterators, and
  not to the two-iterator constructor. An element of a list is a flag value or an
  iterator into a list of elements. The chain of delegations may not end: the result is
  \<open>None\<close> when no object is constructed.
\<close>

datatype elem = Flag Flags | Iter "elem list" nat

partial_function (option) Seq_il :: "elem list \<Rightarrow> Seq option" where
  "Seq_il il = Seq_il [Iter il 0, Iter il (length il)]"

section \<open>The environment: entropy source and clocks\<close>

text \<open>
  \<^verbatim>\<open>generate\<close> reads three facilities outside the program: \<^verbatim>\<open>std::random_device\<close>
  (through a \<^verbatim>\<open>uniform_int_distribution\<close> over \<open>[0, 0xffffffff]\<close>),
  \<^verbatim>\<open>system_clock::now()\<close> and \<^verbatim>\<open>steady_clock::now()\<close>. Each is a sequence of
  readings, given by the environment, with a counter of the readings taken so far:
  \<^item> \<open>rd_values w k\<close> is the value of the \<open>k\<close>-th evaluation of \<^verbatim>\<open>dis(rd)\<close>, a 32-bit
    word; \<open>rd_draws\<close> counts the evaluations, \<open>rd_opened\<close> the devices constructed;
  \<^item> \<open>system_ticks w k\<close> is \<^verbatim>\<open>time_since_epoch().count()\<close> of the \<open>k\<close>-th reading of the
    system clock, a 64-bit count in the clock's own period; likewise \<open>steady_ticks\<close>.
\<close>

record world =
  rd_values :: "nat \<Rightarrow> result_type"
  rd_draws :: nat
  rd_opened :: nat
  system_ticks :: "nat \<Rightarrow> 64 word"
  system_reads :: nat
  steady_ticks :: "nat \<Rightarrow> 64 word"
  steady_reads :: nat

text \<open>\<^verbatim>\<open>std::random_device rd;\<close>\<close>

definition random_device_open :: "world \<Rightarrow> world" where
  "random_device_open w = w\<lparr>rd_opened := Suc (rd_opened w)\<rparr>"

text \<open>\<^verbatim>\<open>dis(rd)\<close>\<close>

definition dis_rd :: "world \<Rightarrow> result_type \<times> world" where
  "dis_rd w = (rd_values w (rd_draws w), w\<lparr>rd_draws := Suc (rd_draws w)\<rparr>)"

text \<open>\<^verbatim>\<open>system_clock::now()\<close> and \<^verbatim>\<open>steady_clock::now()\<close>, as their tick counts.\<close>

definition system_clock_now :: "world \<Rightarrow> 64 word \<times> world" where
  "system_clock_now w =
     (system_ticks w (system_reads w), w\<lparr>system_reads := Suc (system_reads w)\<rparr>)"

definition steady_clock_now :: "world \<Rightarrow> 64 word \<times> world" where
  "steady_clock_now w =
     (steady_ticks w (steady_reads w), w\<lparr>steady_reads := Suc (steady_reads w)\<rparr>)"

section \<open>The standard seed sequence\<close>

text \<open>
  \<^verbatim>\<open>std::seed_seq\<close> belongs to the standard library. Its mixing function is a
  parameter \<open>mix\<close> of the model: \<open>mix v n i\<close> is the word that a \<^verbatim>\<open>seed_seq\<close> holding the
  input words \<open>v\<close> writes at position \<open>i\<close> of a range of length \<open>n\<close>. Its \<^verbatim>\<open>generate\<close>
  overwrites every position of the range and reads none of them.
\<close>

type_synonym mixer = "result_type list \<Rightarrow> nat \<Rightarrow> nat \<Rightarrow> result_type"

type_synonym seed_seq = "result_type list"

definition seed_seq_default :: seed_seq where
  "seed_seq_default = []"

definition seed_seq_range :: "result_type list \<Rightarrow> seed_seq" where
  "seed_seq_range xs = xs"

definition seed_seq_generate :: "mixer \<Rightarrow> seed_seq \<Rightarrow> result_type list \<Rightarrow> result_type list" where
  "seed_seq_generate mix sseq rng = map (mix sseq (length rng)) [0..<length rng]"

section \<open>Seq::generate\<close>

text \<open>
  The output range \<^verbatim>\<open>[bgnIt, endIt)\<close> is the list \<open>rng\<close> of its current contents;
  an iterator into it is an index. The call-back of \<^verbatim>\<open>randDevGen\<close> takes the range, the
  position and the drawn value, and returns the range after its write.
\<close>

type_synonym callback = "result_type list \<Rightarrow> nat \<Rightarrow> result_type \<Rightarrow> result_type list"

text \<open>\<^verbatim>\<open>[](auto it, result_type v) { *it = v; }\<close>\<close>

definition fn_assign :: callback where
  "fn_assign rng it v = rng[it := v]"

text \<open>\<^verbatim>\<open>[](auto it, result_type v) { *it ^= v; }\<close>\<close>

definition fn_xor :: callback where
  "fn_xor rng it v = rng[it := (rng ! it) XOR v]"

text \<open>
  \<^verbatim>\<open>for(auto it = bgnIt; it != endIt; ++it) { fn(it, dis(rd)); }\<close>
  The iterator starts at \<open>0\<close> and the end is \<open>length rng\<close>, so \<open>it \<noteq> endIt\<close> is
  \<open>it < endIt\<close> throughout.
\<close>

function randDevGen_loop ::
  "callback \<Rightarrow> nat \<Rightarrow> nat \<Rightarrow> result_type list \<Rightarrow> world \<Rightarrow> result_type list \<times> world" where
  "randDevGen_loop fn it endIt rng w =
     (if it < endIt
      then (let (v, w') = dis_rd w in randDevGen_loop fn (Suc it) endIt (fn rng it v) w')
      else (rng, w))"
  by pat_completeness auto
termination
  by (relation "measure (\<lambda>(fn, it, endIt, rng, w). endIt - it)") auto

declare randDevGen_loop.simps [simp del]

definition randDevGen :: "callback \<Rightarrow> result_type list \<Rightarrow> world \<Rightarrow> result_type list \<times> world" where
  "randDevGen fn rng w = randDevGen_loop fn 0 (length rng) rng (random_device_open w)"

text \<open>
  The scratch array \<^verbatim>\<open>std::array<result_type,4> arr\<close> is not initialised: a slot is
  \<open>None\<close> until it is written. \<^verbatim>\<open>arrIt\<close> is an index into it.

  \<^verbatim>\<open>auto cnt = timePt.time_since_epoch().count();\<close>
  \<^verbatim>\<open>*arrIt++ = static_cast<result_type>(cnt >> 32);\<close>
  \<^verbatim>\<open>*arrIt++ = static_cast<result_type>(cnt);\<close>
  The count is a signed 64-bit integer, so the shift is arithmetic. A write past the
  end of the array is undefined behaviour: \<open>None\<close>.
\<close>

type_synonym scratch = "result_type option list \<times> nat"

definition extractTime :: "64 word \<Rightarrow> scratch \<Rightarrow> scratch option" where
  "extractTime cnt = (\<lambda>(arr, arrIt).
     if arrIt + 2 \<le> length arr
     then Some (arr[arrIt := Some (ucast (signed_drop_bit 32 cnt)),
                    Suc arrIt := Some (ucast cnt)], arrIt + 2)
     else None)"

text \<open>
  Lines 208 to 215: the scratch array and the selected clocks' times.
\<close>

definition fill_clock_times :: "Flags \<Rightarrow> world \<Rightarrow> (scratch \<times> world) option" where
  "fill_clock_times f w =
     (let a0 = (replicate 4 None, 0) in
      case (if f AND kSystemClock \<noteq> 0
            then (let (t, w1) = system_clock_now w in map_option (\<lambda>a. (a, w1)) (extractTime t a0))
            else Some (a0, w)) of
        None \<Rightarrow> None
      | Some (a1, w1) \<Rightarrow>
          (if f AND kSteadyClock \<noteq> 0
           then (let (t, w2) = steady_clock_now w1 in map_option (\<lambda>a. (a, w2)) (extractTime t a1))
           else Some (a1, w1)))"

text \<open>
  Reading the range \<^verbatim>\<open>[arr.begin(), arrIt)\<close>, as the constructor of \<^verbatim>\<open>std::seed_seq\<close>
  does: reading a slot that was never written is undefined behaviour, \<open>None\<close>.
\<close>

definition read_range :: "result_type option list \<Rightarrow> nat \<Rightarrow> result_type list option" where
  "read_range arr arrIt = (if arrIt \<le> length arr then those (take arrIt arr) else None)"

text \<open>
  Lines 220 to 226: the range is filled by a default-constructed \<^verbatim>\<open>seed_seq\<close> when
  nothing was written to the scratch array, by one over the written words otherwise.
\<close>

definition fill_by_seed_seq :: "mixer \<Rightarrow> scratch \<Rightarrow> result_type list \<Rightarrow> result_type list option" where
  "fill_by_seed_seq mix = (\<lambda>(arr, arrIt) rng.
     if arrIt = 0
     then Some (seed_seq_generate mix seed_seq_default rng)
     else map_option (\<lambda>xs. seed_seq_generate mix (seed_seq_range xs) rng) (read_range arr arrIt))"

definition generate ::
  "mixer \<Rightarrow> Seq \<Rightarrow> result_type list \<Rightarrow> world \<Rightarrow> (result_type list \<times> world) option" where
  "generate mix s rng w =
     (let f = flags s AND kAll in
      if f = kRandomDevice
      then Some (randDevGen fn_assign rng w)
      else
        (case fill_clock_times f w of
           None \<Rightarrow> None
         | Some (a, w1) \<Rightarrow>
             (case fill_by_seed_seq mix a rng of
                None \<Rightarrow> None
              | Some rng1 \<Rightarrow>
                  (if f AND kRandomDevice \<noteq> 0
                   then Some (randDevGen fn_xor rng1 w1)
                   else Some (rng1, w1)))))"

section \<open>Seq::size and Seq::param\<close>

text \<open>\<^verbatim>\<open>constexpr auto size() const noexcept -> std::size_t { return 1; }\<close>\<close>

definition size_Seq :: "Seq \<Rightarrow> nat" where
  "size_Seq s = 1"

text \<open>
  \<^verbatim>\<open>void param(It it) const { *it = this->flags; }\<close>
  The destination is a store from positions to words; the call writes one position.
\<close>

definition param :: "Seq \<Rightarrow> ('p \<Rightarrow> Flags) \<Rightarrow> 'p \<Rightarrow> ('p \<Rightarrow> Flags)" where
  "param s dest it = dest(it := flags s)"

section \<open>What the specification says of the clock branch\<close>

text \<open>
  The specification's description of the scratch array, for comparison with
  \<open>fill_clock_times\<close>: a 64-bit count is split into its high half and then its low
  half; the words of the system clock come first, then those of the steady clock,
  each only if selected.
\<close>

definition spec_split :: "64 word \<Rightarrow> result_type list" where
  "spec_split cnt = [ucast (drop_bit 32 cnt), ucast cnt]"

definition spec_clock_words :: "Flags \<Rightarrow> world \<Rightarrow> result_type list" where
  "spec_clock_words f w =
     (if f AND kSystemClock \<noteq> 0 then spec_split (system_ticks w (system_reads w)) else []) @
     (if f AND kSteadyClock \<noteq> 0 then spec_split (steady_ticks w (steady_reads w)) else [])"

text \<open>The environment after one reading of each selected clock.\<close>

definition clocks_read :: "Flags \<Rightarrow> world \<Rightarrow> world" where
  "clocks_read f w =
     w\<lparr>system_reads := system_reads w + (if f AND kSystemClock \<noteq> 0 then 1 else 0),
       steady_reads := steady_reads w + (if f AND kSteadyClock \<noteq> 0 then 1 else 0)\<rparr>"

text \<open>The environment after one device is constructed and \<open>n\<close> values are drawn from it.\<close>

definition device_drawn :: "nat \<Rightarrow> world \<Rightarrow> world" where
  "device_drawn n w = w\<lparr>rd_draws := rd_draws w + n, rd_opened := Suc (rd_opened w)\<rparr>"

section \<open>A concrete environment\<close>

text \<open>
  An environment and a mixing function to run the model on: the entropy source yields
  \<open>0x100, 0x101, ...\<close>, the system clock reads \<open>0x0000000500000007\<close> ticks, the steady
  clock \<open>0xFFFFFFFE0000000B\<close> (a negative count), and the mixing function adds up its
  input words, the length of the range and the position.
\<close>

definition example_world :: world where
  "example_world =
     \<lparr>rd_values = (\<lambda>k. 0x100 + of_nat k), rd_draws = 0, rd_opened = 0,
      system_ticks = (\<lambda>k. 0x0000000500000007), system_reads = 0,
      steady_ticks = (\<lambda>k. 0xFFFFFFFE0000000B), steady_reads = 0\<rparr>"

text \<open>The same clocks, with an entropy source that yields \<open>0x200, 0x201, ...\<close>.\<close>

definition example_world2 :: world where
  "example_world2 = example_world\<lparr>rd_values := (\<lambda>k. 0x200 + of_nat k)\<rparr>"

definition example_mix :: mixer where
  "example_mix v n i = sum_list v + of_nat n + of_nat i"

section \<open>The loop of randDevGen\<close>

text \<open>
  One pass of the loop from position \<open>it\<close> to the end of the range leaves the positions
  before \<open>it\<close> as they are and combines each later position with the next value drawn,
  for a call-back that writes \<open>g old v\<close> at the position it is given.
\<close>

lemma randDevGen_loop_done:
  "\<not> it < endIt \<Longrightarrow> randDevGen_loop fn it endIt rng w = (rng, w)"
  by (subst randDevGen_loop.simps) simp

lemma randDevGen_loop_step:
  "it < endIt \<Longrightarrow> randDevGen_loop fn it endIt rng w =
     randDevGen_loop fn (Suc it) endIt (fn rng it (rd_values w (rd_draws w)))
       (w\<lparr>rd_draws := Suc (rd_draws w)\<rparr>)"
  by (subst randDevGen_loop.simps) (simp add: dis_rd_def)

lemma randDevGen_loop_spec:
  "length rng = n \<Longrightarrow> it \<le> n \<Longrightarrow>
   randDevGen_loop (\<lambda>r i v. r[i := g (r ! i) v]) it n rng w =
     (map (\<lambda>i. if i < it then rng ! i else g (rng ! i) (rd_values w (rd_draws w + (i - it)))) [0..<n],
      w\<lparr>rd_draws := rd_draws w + (n - it)\<rparr>)"
proof (induction "n - it" arbitrary: it rng w)
  case 0
  have "map (\<lambda>i. if i < it then rng ! i else g (rng ! i) (rd_values w (rd_draws w + (i - it)))) [0..<n] = rng"
    using 0 by (auto intro!: nth_equalityI)
  then show ?case
    using 0 by (simp add: randDevGen_loop_done)
next
  case (Suc k)
  then have lt: "it < n" and k: "k = n - Suc it" by simp_all
  let ?F = "\<lambda>r i v. r[i := g (r ! i) v]"
  let ?v = "rd_values w (rd_draws w)"
  let ?w = "w\<lparr>rd_draws := Suc (rd_draws w)\<rparr>"
  have step: "randDevGen_loop ?F it n rng w = randDevGen_loop ?F (Suc it) n (rng[it := g (rng ! it) ?v]) ?w"
    using lt by (rule randDevGen_loop_step)
  have ih: "randDevGen_loop ?F (Suc it) n (rng[it := g (rng ! it) ?v]) ?w =
     (map (\<lambda>i. if i < Suc it then (rng[it := g (rng ! it) ?v]) ! i
                else g ((rng[it := g (rng ! it) ?v]) ! i) (rd_values ?w (rd_draws ?w + (i - Suc it)))) [0..<n],
      ?w\<lparr>rd_draws := rd_draws ?w + (n - Suc it)\<rparr>)"
    using Suc.hyps(1) [OF k, of "rng[it := g (rng ! it) ?v]" ?w] Suc.prems lt by simp
  have lists: "map (\<lambda>i. if i < Suc it then (rng[it := g (rng ! it) ?v]) ! i
                else g ((rng[it := g (rng ! it) ?v]) ! i) (rd_values ?w (rd_draws ?w + (i - Suc it)))) [0..<n]
      = map (\<lambda>i. if i < it then rng ! i else g (rng ! i) (rd_values w (rd_draws w + (i - it)))) [0..<n]"
  proof (rule map_cong [OF refl])
    fix i assume "i \<in> set [0..<n]"
    then have "i < n" by simp
    then show "(if i < Suc it then (rng[it := g (rng ! it) ?v]) ! i
                else g ((rng[it := g (rng ! it) ?v]) ! i) (rd_values ?w (rd_draws ?w + (i - Suc it))))
       = (if i < it then rng ! i else g (rng ! i) (rd_values w (rd_draws w + (i - it))))"
      using Suc.prems lt by (cases "i = it") (auto simp: Suc_diff_Suc nth_list_update)
  qed
  have worlds: "?w\<lparr>rd_draws := rd_draws ?w + (n - Suc it)\<rparr> = w\<lparr>rd_draws := rd_draws w + (n - it)\<rparr>"
    using lt by simp
  show ?case by (simp only: step ih lists worlds)
qed


lemma fn_assign_eq: "fn_assign = (\<lambda>r i v. r[i := (\<lambda>old new. new) (r ! i) v])"
  by (intro ext) (simp add: fn_assign_def)

lemma fn_xor_eq: "fn_xor = (\<lambda>r i v. r[i := (XOR) (r ! i) v])"
  by (intro ext) (simp add: fn_xor_def)

lemma randDevGen_assign:
  "randDevGen fn_assign rng w =
     (map (\<lambda>i. rd_values w (rd_draws w + i)) [0..<length rng], device_drawn (length rng) w)"
  unfolding randDevGen_def fn_assign_eq
  by (subst randDevGen_loop_spec [OF refl]) (simp_all add: random_device_open_def device_drawn_def)

lemma randDevGen_xor:
  "randDevGen fn_xor rng w =
     (map (\<lambda>i. rng ! i XOR rd_values w (rd_draws w + i)) [0..<length rng],
      device_drawn (length rng) w)"
  unfolding randDevGen_def fn_xor_eq
  by (subst randDevGen_loop_spec [OF refl]) (simp_all add: random_device_open_def device_drawn_def)

lemma high_word_shift:
  "(ucast (signed_drop_bit 32 (cnt :: 64 word)) :: 32 word) = ucast (drop_bit 32 cnt)"
  by (rule bit_word_eqI) (auto simp: bit_simps)


lemma those_map_Some: "those (map Some xs) = Some xs"
  by (induction xs) simp_all

lemma extractTime_0:
  "extractTime cnt ([None, None, None, None], 0) =
     Some (map Some (spec_split cnt) @ [None, None], 2)"
  by (simp add: extractTime_def spec_split_def high_word_shift)

lemma extractTime_2:
  "extractTime cnt ([a, b, None, None], 2) =
     Some ([a, b] @ map Some (spec_split cnt), 4)"
  by (simp add: extractTime_def spec_split_def high_word_shift numeral_2_eq_2)

lemma length_spec_split: "length (spec_split cnt) = 2"
  by (simp add: spec_split_def)

lemma fill_clock_times_eq:
  "fill_clock_times f w =
     Some ((map Some (spec_clock_words f w) @
              replicate (4 - length (spec_clock_words f w)) None,
            length (spec_clock_words f w)),
           clocks_read f w)"
proof -
  have r4: "replicate 4 None = [None, None, None, None :: result_type option]"
    by (simp add: numeral_eq_Suc)
  have r2: "replicate 2 None = [None, None :: result_type option]"
    by (simp add: numeral_eq_Suc)
  have two: "map Some (spec_split c) @ [None, None] =
      [Some (spec_split c ! 0), Some (spec_split c ! 1), None, None]" for c
    by (simp add: spec_split_def)
  show ?thesis
    by (cases "f AND kSystemClock = 0"; cases "f AND kSteadyClock = 0")
       (simp_all add: fill_clock_times_def r4 r2 extractTime_0 extractTime_2 two
          spec_clock_words_def clocks_read_def system_clock_now_def steady_clock_now_def
          length_spec_split, simp_all add: spec_split_def)
qed


lemma length_spec_clock_words:
  "length (spec_clock_words f w) =
     (if f AND kSystemClock \<noteq> 0 then 2 else 0) + (if f AND kSteadyClock \<noteq> 0 then 2 else 0)"
  by (simp add: spec_clock_words_def length_spec_split)

lemma length_spec_clock_words_le: "length (spec_clock_words f w) \<le> 4"
  by (simp add: length_spec_clock_words)

lemma read_range_written:
  "length xs \<le> 4 \<Longrightarrow>
   read_range (map Some xs @ replicate (4 - length xs) None) (length xs) = Some xs"
  by (simp add: read_range_def those_map_Some)

lemma fill_by_seed_seq_written:
  "length xs \<le> 4 \<Longrightarrow>
   fill_by_seed_seq mix (map Some xs @ replicate (4 - length xs) None, length xs) rng =
     Some (seed_seq_generate mix xs rng)"
  by (simp add: fill_by_seed_seq_def read_range_written seed_seq_default_def seed_seq_range_def)

lemma kAll_bits:
  "(m AND kAll) AND kRandomDevice = m AND kRandomDevice"
  "(m AND kAll) AND kSystemClock = m AND kSystemClock"
  "(m AND kAll) AND kSteadyClock = m AND kSteadyClock"
  "(m AND kAll) AND kAll = m AND kAll"
  by (simp_all add: kAll_def kRandomDevice_def kSystemClock_def kSteadyClock_def word_bw_assocs)

lemma generate_clock_branch:
  "flags s AND kAll \<noteq> kRandomDevice \<Longrightarrow>
   generate mix s rng w =
     Some (if flags s AND kRandomDevice \<noteq> 0
           then randDevGen fn_xor
                  (seed_seq_generate mix (spec_clock_words (flags s AND kAll) w) rng)
                  (clocks_read (flags s AND kAll) w)
           else (seed_seq_generate mix (spec_clock_words (flags s AND kAll) w) rng,
                 clocks_read (flags s AND kAll) w))"
  by (simp add: generate_def Let_def fill_clock_times_eq fill_by_seed_seq_written
        length_spec_clock_words_le kAll_bits)

lemma generate_device_branch:
  "flags s AND kAll = kRandomDevice \<Longrightarrow>
   generate mix s rng w = Some (randDevGen fn_assign rng w)"
  by (simp add: generate_def)

lemma clock_bit_not_device_only:
  "m AND kSystemClock \<noteq> 0 \<or> m AND kSteadyClock \<noteq> 0 \<Longrightarrow> m AND kAll \<noteq> kRandomDevice"
proof
  assume eq: "m AND kAll = kRandomDevice"
  have "m AND kSystemClock = (m AND kAll) AND kSystemClock"
    and "m AND kSteadyClock = (m AND kAll) AND kSteadyClock"
    by (simp_all add: kAll_bits)
  then have "m AND kSystemClock = 0" and "m AND kSteadyClock = 0"
    by (simp_all add: eq kRandomDevice_def kSystemClock_def kSteadyClock_def)
  moreover assume "m AND kSystemClock \<noteq> 0 \<or> m AND kSteadyClock \<noteq> 0"
  ultimately show False by simp
qed

lemma no_bits:
  assumes "m AND kAll = 0"
  shows "m AND kRandomDevice = 0" "m AND kSystemClock = 0" "m AND kSteadyClock = 0"
    "m AND kAll \<noteq> kRandomDevice"
proof -
  have "m AND kRandomDevice = (m AND kAll) AND kRandomDevice"
    and "m AND kSystemClock = (m AND kAll) AND kSystemClock"
    and "m AND kSteadyClock = (m AND kAll) AND kSteadyClock"
    by (simp_all add: kAll_bits)
  then show "m AND kRandomDevice = 0" "m AND kSystemClock = 0" "m AND kSteadyClock = 0"
    by (simp_all add: assms)
  show "m AND kAll \<noteq> kRandomDevice"
    by (simp add: assms kRandomDevice_def)
qed

lemma length_seed_seq_generate: "length (seed_seq_generate mix v rng) = length rng"
  by (simp add: seed_seq_generate_def)

lemma nth_seed_seq_generate:
  "i < length rng \<Longrightarrow> seed_seq_generate mix v rng ! i = mix v (length rng) i"
  by (simp add: seed_seq_generate_def)

section \<open>Introspection\<close>

text \<open>
  Claim C7. Whatever the mask, \<open>size\<close> is 1, and \<open>param\<close> writes the mask given at
  construction, every bit of it, at the given position and touches no other position.
\<close>

theorem size_param_verbatim:
  "size_Seq (Seq_flags m) = 1 \<and>
   param (Seq_flags m) dest it it = m \<and>
   param (Seq_flags m) dest it = dest(it := m)"
  by (simp add: size_Seq_def param_def Seq_flags_def)

section \<open>Construction\<close>

lemma Seq_range_loop_foldr: "Seq_range_loop a xs = a OR foldr (OR) xs 0"
  by (induction xs arbitrary: a) (simp_all add: word_bw_assocs)

text \<open>
  Claim C6. The two-iterator constructor stores the bitwise OR of the values of its
  range: the instance it builds is the one the primary constructor builds from that OR,
  and on the range \<open>kSystemClock, kSteadyClock\<close> it is the instance of the mask
  \<open>kSystemClock | kSteadyClock\<close>. The initializer-list constructor, which the braced
  list \<open>{kSystemClock, kSteadyClock}\<close> selects, delegates to itself and constructs no
  object.
\<close>

theorem flag_range_is_or_braced_list_loops:
  "flags (Seq_range xs) = foldr (OR) xs 0 \<and>
   Seq_range xs = Seq_flags (foldr (OR) xs 0) \<and>
   Seq_range [kSystemClock, kSteadyClock] = Seq_flags (kSystemClock OR kSteadyClock) \<and>
   Seq_il [Flag kSystemClock, Flag kSteadyClock] = None"
proof -
  have "False" if h: "Seq_il il = Some s" for il s
  proof (rule Seq_il.raw_induct [where P = "\<lambda>il s. False", OF _ h])
    fix f :: "elem list \<Rightarrow> Seq option" and il s
    assume ih: "\<And>il s. f il = Some s \<Longrightarrow> False"
      and step: "f [Iter il 0, Iter il (length il)] = Some s"
    from step show False
      by (rule ih)
  qed
  then have "Seq_il [Flag kSystemClock, Flag kSteadyClock] = None"
    by (cases "Seq_il [Flag kSystemClock, Flag kSteadyClock]") auto
  then show ?thesis
    by (simp add: Seq_range_def Seq_flags_def Seq_range_loop_foldr)
qed

text \<open>
  Claim C8. Generation ignores the mask bits outside the three defined flags: on the same
  range and in the same environment, an instance built from \<open>m\<close> and one built from
  \<open>m AND kAll\<close> give the same result.
\<close>

theorem high_bits_ignored:
  "generate mix (Seq_flags m) rng w = generate mix (Seq_flags (m AND kAll)) rng w"
  by (simp add: generate_def Seq_flags_def kAll_bits)


section \<open>The branches of generate\<close>

text \<open>
  Claim C1. When the mask, restricted to the three defined bits, is \<open>kRandomDevice\<close>
  alone, \<open>generate\<close> on a range of length \<open>N\<close> draws exactly \<open>N\<close> values from the entropy
  source and position \<open>i\<close> of the output is the \<open>i\<close>-th value drawn, as it is: the result
  does not depend on the mixing function, and no clock is read.
\<close>

theorem device_only_direct_fill:
  assumes "flags s AND kAll = kRandomDevice"
  shows "generate mix s rng w =
           Some (map (\<lambda>i. rd_values w (rd_draws w + i)) [0..<length rng],
                 device_drawn (length rng) w) \<and>
         rd_draws (device_drawn (length rng) w) = rd_draws w + length rng \<and>
         system_reads (device_drawn (length rng) w) = system_reads w \<and>
         steady_reads (device_drawn (length rng) w) = steady_reads w"
  by (simp add: generate_device_branch [OF assms] randDevGen_assign device_drawn_def)

text \<open>The mask \<open>0xFFFFFFF9\<close> on a range of three words.\<close>

theorem device_only_direct_fill_witness:
  "flags (Seq_flags 0xFFFFFFF9) AND kAll = kRandomDevice \<and>
   generate example_mix (Seq_flags 0xFFFFFFF9) [7, 8, 9] example_world =
     Some ([0x100, 0x101, 0x102], example_world\<lparr>rd_draws := 3, rd_opened := 1\<rparr>)"
proof -
  have h: "flags (Seq_flags 0xFFFFFFF9) AND kAll = kRandomDevice"
    by (simp add: Seq_flags_def kAll_def kRandomDevice_def kSystemClock_def kSteadyClock_def)
  have u: "[0..<3] = [0, 1, 2]"
    by (simp add: upt_rec)
  show ?thesis
    using h device_only_direct_fill [OF h, of example_mix "[7, 8, 9]" example_world]
    by (simp add: u device_drawn_def example_world_def)
qed

text \<open>
  Claim C4, as amended. On an empty range \<open>generate\<close> writes nothing and draws no value
  from the entropy source, for every mask. It still reads each selected clock once, and
  constructs the entropy device once when \<open>kRandomDevice\<close> is selected.
\<close>

theorem empty_range_draws_nothing:
  "generate mix s [] w =
     Some ([], (clocks_read (flags s AND kAll) w)
                 \<lparr>rd_opened := rd_opened w + (if flags s AND kRandomDevice \<noteq> 0 then 1 else 0)\<rparr>) \<and>
   rd_draws ((clocks_read (flags s AND kAll) w)
                 \<lparr>rd_opened := rd_opened w + (if flags s AND kRandomDevice \<noteq> 0 then 1 else 0)\<rparr>)
     = rd_draws w"
proof (cases "flags s AND kAll = kRandomDevice")
  case True
  have "flags s AND kRandomDevice = (flags s AND kAll) AND kRandomDevice"
    and "flags s AND kSystemClock = (flags s AND kAll) AND kSystemClock"
    and "flags s AND kSteadyClock = (flags s AND kAll) AND kSteadyClock"
    by (simp_all add: kAll_bits)
  then have "flags s AND kRandomDevice \<noteq> 0" "flags s AND kSystemClock = 0"
    "flags s AND kSteadyClock = 0"
    by (simp_all add: True kRandomDevice_def kSystemClock_def kSteadyClock_def)
  then show ?thesis
    by (simp add: generate_device_branch [OF True] randDevGen_assign device_drawn_def
          clocks_read_def kAll_bits)
next
  case False
  show ?thesis
    by (simp add: generate_clock_branch [OF False] randDevGen_xor device_drawn_def
          clocks_read_def seed_seq_generate_def)
qed

text \<open>
  Claim C4, as stated, fails: with the mask \<open>kSystemClock\<close> and an empty range, the
  system clock is read.
\<close>

theorem empty_range_reads_clock:
  "generate example_mix (Seq_flags kSystemClock) [] example_world \<noteq> Some ([], example_world) \<and>
   generate example_mix (Seq_flags kSystemClock) [] example_world =
     Some ([], example_world\<lparr>system_reads := 1\<rparr>) \<and>
   system_reads example_world = 0"
proof -
  have ne: "flags (Seq_flags kSystemClock) AND kAll \<noteq> kRandomDevice"
    by (simp add: Seq_flags_def kAll_def kRandomDevice_def kSystemClock_def kSteadyClock_def)
  have g: "generate example_mix (Seq_flags kSystemClock) [] example_world =
      Some ([], example_world\<lparr>system_reads := 1\<rparr>)"
    by (simp add: generate_clock_branch [OF ne] seed_seq_generate_def clocks_read_def)
       (simp add: Seq_flags_def kAll_def kRandomDevice_def kSystemClock_def kSteadyClock_def
          example_world_def)
  have "system_reads (example_world\<lparr>system_reads := 1\<rparr>) \<noteq> system_reads example_world"
    by (simp add: example_world_def)
  then have "example_world\<lparr>system_reads := 1\<rparr> \<noteq> example_world"
    by metis
  then show ?thesis
    by (simp add: g) (simp add: example_world_def)
qed

lemma xor_left_inj: "(a XOR b = a XOR c) = (b = c)" for a b c :: "'a::len word"
proof
  assume "a XOR b = a XOR c"
  then have "a XOR (a XOR b) = a XOR (a XOR c)" by simp
  then show "b = c" by (simp flip: xor.assoc)
qed simp

lemma spec_clock_words_cong:
  "system_ticks w' = system_ticks w \<Longrightarrow> system_reads w' = system_reads w \<Longrightarrow>
   steady_ticks w' = steady_ticks w \<Longrightarrow> steady_reads w' = steady_reads w \<Longrightarrow>
   spec_clock_words f w' = spec_clock_words f w"
  by (simp add: spec_clock_words_def)

lemma generate_clock_device:
  assumes "flags s AND kRandomDevice \<noteq> 0"
    and "flags s AND kSystemClock \<noteq> 0 \<or> flags s AND kSteadyClock \<noteq> 0"
  shows "generate mix s rng w =
     Some (map (\<lambda>i. mix (spec_clock_words (flags s AND kAll) w) (length rng) i XOR
                       rd_values w (rd_draws w + i)) [0..<length rng],
           device_drawn (length rng) (clocks_read (flags s AND kAll) w))"
  by (simp add: generate_clock_branch [OF clock_bit_not_device_only [OF assms(2)]] assms(1)
        randDevGen_xor length_seed_seq_generate nth_seed_seq_generate clocks_read_def)

text \<open>
  Claim C2. When the mask selects the entropy source and at least one clock,
  \<open>generate\<close> first fills the range from the seed sequence over the clock words and then
  runs the entropy pass over that range in the environment left by the clock readings:
  every output word is the mixed word XOR the value drawn for its position, \<open>N\<close> values
  are drawn, and two runs with the same clock readings whose entropy values differ at
  every position differ at every output word.
\<close>

theorem clock_then_device_xor:
  assumes "flags s AND kRandomDevice \<noteq> 0"
    and "flags s AND kSystemClock \<noteq> 0 \<or> flags s AND kSteadyClock \<noteq> 0"
  shows "generate mix s rng w =
           Some (randDevGen fn_xor
                   (seed_seq_generate mix (spec_clock_words (flags s AND kAll) w) rng)
                   (clocks_read (flags s AND kAll) w)) \<and>
         generate mix s rng w =
           Some (map (\<lambda>i. mix (spec_clock_words (flags s AND kAll) w) (length rng) i XOR
                             rd_values w (rd_draws w + i)) [0..<length rng],
                 device_drawn (length rng) (clocks_read (flags s AND kAll) w)) \<and>
         (\<forall>w' out out' u u'.
            system_ticks w' = system_ticks w \<and> system_reads w' = system_reads w \<and>
            steady_ticks w' = steady_ticks w \<and> steady_reads w' = steady_reads w \<and>
            (\<forall>i<length rng. rd_values w' (rd_draws w' + i) \<noteq> rd_values w (rd_draws w + i)) \<and>
            generate mix s rng w = Some (out, u) \<and> generate mix s rng w' = Some (out', u')
            \<longrightarrow> length out = length rng \<and> length out' = length rng \<and>
                (\<forall>i<length rng. out' ! i \<noteq> out ! i))"
proof (intro conjI allI impI)
  show "generate mix s rng w =
           Some (randDevGen fn_xor
                   (seed_seq_generate mix (spec_clock_words (flags s AND kAll) w) rng)
                   (clocks_read (flags s AND kAll) w))"
    by (simp add: generate_clock_branch [OF clock_bit_not_device_only [OF assms(2)]] assms(1))
  show "generate mix s rng w =
           Some (map (\<lambda>i. mix (spec_clock_words (flags s AND kAll) w) (length rng) i XOR
                             rd_values w (rd_draws w + i)) [0..<length rng],
                 device_drawn (length rng) (clocks_read (flags s AND kAll) w))"
    by (rule generate_clock_device [OF assms])
next
  fix w' out out' u u'
  assume h: "system_ticks w' = system_ticks w \<and> system_reads w' = system_reads w \<and>
            steady_ticks w' = steady_ticks w \<and> steady_reads w' = steady_reads w \<and>
            (\<forall>i<length rng. rd_values w' (rd_draws w' + i) \<noteq> rd_values w (rd_draws w + i)) \<and>
            generate mix s rng w = Some (out, u) \<and> generate mix s rng w' = Some (out', u')"
  let ?f = "flags s AND kAll"
  from h have clk: "system_ticks w' = system_ticks w" "system_reads w' = system_reads w"
      "steady_ticks w' = steady_ticks w" "steady_reads w' = steady_reads w"
    and diff: "\<forall>i<length rng. rd_values w' (rd_draws w' + i) \<noteq> rd_values w (rd_draws w + i)"
    and g: "generate mix s rng w = Some (out, u)"
    and g': "generate mix s rng w' = Some (out', u')"
    by blast+
  have cw: "spec_clock_words ?f w' = spec_clock_words ?f w"
    by (rule spec_clock_words_cong [OF clk])
  have out: "out = map (\<lambda>i. mix (spec_clock_words ?f w) (length rng) i XOR
                       rd_values w (rd_draws w + i)) [0..<length rng]"
    using g unfolding generate_clock_device [OF assms, of mix rng w] by simp
  have out': "out' = map (\<lambda>i. mix (spec_clock_words ?f w) (length rng) i XOR
                       rd_values w' (rd_draws w' + i)) [0..<length rng]"
    using g' unfolding generate_clock_device [OF assms, of mix rng w'] cw by simp
  show "length out = length rng" by (simp add: out)
  show "length out' = length rng" by (simp add: out')
  fix i assume i: "i < length rng"
  with diff have "rd_values w' (rd_draws w' + i) \<noteq> rd_values w (rd_draws w + i)"
    by blast
  then show "out' ! i \<noteq> out ! i"
    using i by (simp add: out out' xor_left_inj)
qed

text \<open>
  Claim C5. When the mask has none of the three defined bits, \<open>generate\<close> gives the
  output of a default-constructed seed sequence and leaves the environment as it was
  (no value drawn, no clock read): any two such calls on ranges of the same length give
  the same words, whatever the masks, the environments and the ranges' contents.
\<close>

theorem no_source_deterministic:
  assumes "flags s AND kAll = 0"
  shows "generate mix s rng w = Some (seed_seq_generate mix seed_seq_default rng, w) \<and>
         (\<forall>s' rng' w'. flags s' AND kAll = 0 \<and> length rng' = length rng \<longrightarrow>
            map_option fst (generate mix s' rng' w') = map_option fst (generate mix s rng w))"
proof -
  have g: "generate mix t r v = Some (seed_seq_generate mix seed_seq_default r, v)"
    if "flags t AND kAll = 0" for t r v
    by (simp add: generate_clock_branch [OF no_bits(4) [OF that]] no_bits(1) [OF that] that
          spec_clock_words_def clocks_read_def seed_seq_default_def)
  show ?thesis
    by (simp add: g assms seed_seq_generate_def)
qed

text \<open>
  Claim C10. The scratch array holds the clock words in its first \<open>arrIt\<close> slots, two per
  selected clock, and nothing in the others. The seed sequence is built from those
  \<open>arrIt\<close> slots only: any array with the same first \<open>arrIt\<close> slots gives the same
  result, whatever its other slots hold, and when \<open>arrIt\<close> is 0 the default-constructed
  seed sequence is used whatever the array holds. No slot is read before it is written,
  so \<open>generate\<close> always returns.
\<close>

theorem scratch_prefix_only:
  "fill_clock_times f w =
     Some ((map Some (spec_clock_words f w) @
              replicate (4 - length (spec_clock_words f w)) None,
            length (spec_clock_words f w)), clocks_read f w) \<and>
   length (spec_clock_words f w) =
     (if f AND kSystemClock \<noteq> 0 then 2 else 0) + (if f AND kSteadyClock \<noteq> 0 then 2 else 0) \<and>
   (\<forall>i<4. ((map Some (spec_clock_words f w) @
              replicate (4 - length (spec_clock_words f w)) None) ! i = None)
            = (length (spec_clock_words f w) \<le> i)) \<and>
   (\<forall>arr'. length arr' = 4 \<and>
       take (length (spec_clock_words f w)) arr' = map Some (spec_clock_words f w) \<longrightarrow>
       fill_by_seed_seq mix (arr', length (spec_clock_words f w)) rng =
         Some (seed_seq_generate mix
                 (if length (spec_clock_words f w) = 0 then seed_seq_default
                  else seed_seq_range (spec_clock_words f w)) rng)) \<and>
   (\<forall>arr'. fill_by_seed_seq mix (arr', 0) rng =
       Some (seed_seq_generate mix seed_seq_default rng)) \<and>
   (\<forall>s. generate mix s rng w \<noteq> None)"
proof (intro conjI allI impI)
  let ?cw = "spec_clock_words f w"
  show "fill_clock_times f w =
     Some ((map Some ?cw @ replicate (4 - length ?cw) None, length ?cw), clocks_read f w)"
    by (rule fill_clock_times_eq)
  show "length ?cw =
     (if f AND kSystemClock \<noteq> 0 then 2 else 0) + (if f AND kSteadyClock \<noteq> 0 then 2 else 0)"
    by (rule length_spec_clock_words)
  show "fill_by_seed_seq mix (arr', 0) rng = Some (seed_seq_generate mix seed_seq_default rng)"
    for arr'
    by (simp add: fill_by_seed_seq_def)
  show "generate mix s rng w \<noteq> None" for s
    by (cases "flags s AND kAll = kRandomDevice")
       (simp_all add: generate_device_branch generate_clock_branch)
next
  let ?cw = "spec_clock_words f w"
  fix i :: nat assume "i < 4"
  then show "((map Some ?cw @ replicate (4 - length ?cw) None) ! i = None) = (length ?cw \<le> i)"
    using length_spec_clock_words_le [of f w] by (auto simp: nth_append)
next
  let ?cw = "spec_clock_words f w"
  fix arr' :: "result_type option list"
  assume a: "length arr' = 4 \<and> take (length ?cw) arr' = map Some ?cw"
  then have "read_range arr' (length ?cw) = Some ?cw"
    using length_spec_clock_words_le [of f w] by (simp add: read_range_def those_map_Some)
  then show "fill_by_seed_seq mix (arr', length ?cw) rng =
         Some (seed_seq_generate mix
                 (if length ?cw = 0 then seed_seq_default else seed_seq_range ?cw) rng)"
    by (simp add: fill_by_seed_seq_def)
qed

section \<open>The clock branch, and runs on the concrete environment\<close>

lemma flag_values:
  "kRandomDevice = 1" "kSystemClock = 2" "kSteadyClock = 4" "kAll = 7"
  by (simp_all add: kAll_def kRandomDevice_def kSystemClock_def kSteadyClock_def)

lemma example_clock_words:
  "spec_split 0x0000000500000007 = [5, 7]"
  "spec_split 0xFFFFFFFE0000000B = [0xFFFFFFFE, 0xB]"
  by (simp_all add: spec_split_def)

lemma upt_small: "[0..<2] = [0, 1]" "[0..<3] = [0, 1, 2]"
  by (simp_all add: upt_rec)



text \<open>
  The default instance (all sources) on a range of two words, in two environments with
  the same clocks and different entropy values: both output words differ.
\<close>

theorem clock_then_device_xor_witness:
  "flags Seq_default AND kRandomDevice \<noteq> 0 \<and>
   flags Seq_default AND kSystemClock \<noteq> 0 \<and>
   generate example_mix Seq_default [0, 0] example_world =
     Some ([0x117, 0x119],
           example_world\<lparr>system_reads := 1, steady_reads := 1, rd_draws := 2, rd_opened := 1\<rparr>) \<and>
   generate example_mix Seq_default [0, 0] example_world2 =
     Some ([0x217, 0x219],
           example_world2\<lparr>system_reads := 1, steady_reads := 1, rd_draws := 2, rd_opened := 1\<rparr>)"
proof -
  have h1: "flags Seq_default AND kRandomDevice \<noteq> 0"
    by (simp add: Seq_default_def Seq_flags_def flag_values)
  have h2: "flags Seq_default AND kSystemClock \<noteq> 0"
    by (simp add: Seq_default_def Seq_flags_def flag_values)
  then have h3: "flags Seq_default AND kSystemClock \<noteq> 0 \<or> flags Seq_default AND kSteadyClock \<noteq> 0"
    by simp
  have cw: "spec_clock_words (flags Seq_default AND kAll) example_world =
      [5, 7, 0xFFFFFFFE, 0xB]"
    "spec_clock_words (flags Seq_default AND kAll) example_world2 =
      [5, 7, 0xFFFFFFFE, 0xB]"
    by (simp_all add: spec_clock_words_def Seq_default_def Seq_flags_def flag_values
          example_world_def example_world2_def example_clock_words)
  note t = clock_then_device_xor [OF h1 h3, of example_mix "[0, 0]", THEN conjunct2,
      THEN conjunct1]
  have "generate example_mix Seq_default [0, 0] example_world =
     Some ([0x117, 0x119],
           example_world\<lparr>system_reads := 1, steady_reads := 1, rd_draws := 2, rd_opened := 1\<rparr>)"
    using t [of example_world]
    by (simp add: cw upt_small)
       (simp add: example_mix_def device_drawn_def clocks_read_def Seq_default_def Seq_flags_def flag_values
          example_world_def)
  moreover have "generate example_mix Seq_default [0, 0] example_world2 =
     Some ([0x217, 0x219],
           example_world2\<lparr>system_reads := 1, steady_reads := 1, rd_draws := 2, rd_opened := 1\<rparr>)"
    using t [of example_world2]
    by (simp add: cw upt_small)
       (simp add: example_mix_def device_drawn_def clocks_read_def Seq_default_def Seq_flags_def flag_values
          example_world_def example_world2_def)
  ultimately show ?thesis using h1 h2 by simp
qed

text \<open>
  A mask with only undefined bits and the zero mask, on ranges of two words with
  different contents, in different environments: the same two words.
\<close>

theorem no_source_deterministic_witness:
  "flags (Seq_flags 0xFFFFFFF8) AND kAll = 0 \<and>
   generate example_mix (Seq_flags 0xFFFFFFF8) [1, 2] example_world =
     Some ([2, 3], example_world) \<and>
   flags (Seq_flags 0) AND kAll = 0 \<and>
   map_option fst (generate example_mix (Seq_flags 0) [9, 9] example_world2) = Some [2, 3]"
proof -
  have h: "flags (Seq_flags 0xFFFFFFF8) AND kAll = 0"
    by (simp add: Seq_flags_def flag_values)
  have h': "flags (Seq_flags 0) AND kAll = 0"
    by (simp add: Seq_flags_def)
  have ss: "seed_seq_generate example_mix seed_seq_default [1, 2] = [2, 3]"
    by (simp add: seed_seq_generate_def seed_seq_default_def example_mix_def upt_small)
  note t = no_source_deterministic [OF h, of example_mix "[1, 2]" example_world]
  have g: "generate example_mix (Seq_flags 0xFFFFFFF8) [1, 2] example_world =
      Some ([2, 3], example_world)"
    using t [THEN conjunct1] by (simp add: ss)
  have "flags (Seq_flags 0) AND kAll = 0 \<and> length [9, 9 :: result_type] = length [1, 2 :: result_type] \<longrightarrow>
      map_option fst (generate example_mix (Seq_flags 0) [9, 9] example_world2) =
      map_option fst (generate example_mix (Seq_flags 0xFFFFFFF8) [1, 2] example_world)"
    using t [THEN conjunct2] by blast
  then have "map_option fst (generate example_mix (Seq_flags 0) [9, 9] example_world2) = Some [2, 3]"
    using h' by (simp add: g)
  then show ?thesis using h h' g by simp
qed

text \<open>
  The steady clock alone: two slots are written, and the result over an array whose last
  two slots hold other values is the same.
\<close>

theorem scratch_prefix_only_witness:
  "fill_clock_times kSteadyClock example_world =
     Some (([Some 0xFFFFFFFE, Some 0xB, None, None], 2), example_world\<lparr>steady_reads := 1\<rparr>) \<and>
   fill_by_seed_seq example_mix ([Some 0xFFFFFFFE, Some 0xB, None, None], 2) [0, 0, 0] =
     Some [0xC, 0xD, 0xE] \<and>
   fill_by_seed_seq example_mix ([Some 0xFFFFFFFE, Some 0xB, Some 0xDEAD, Some 0xBEEF], 2) [0, 0, 0] =
     Some [0xC, 0xD, 0xE]"
proof -
  have cw: "spec_clock_words kSteadyClock example_world = [0xFFFFFFFE, 0xB]"
    by (simp add: spec_clock_words_def flag_values example_world_def example_clock_words)
  have cr: "clocks_read kSteadyClock example_world = example_world\<lparr>steady_reads := 1\<rparr>"
    by (simp add: clocks_read_def flag_values example_world_def)
  have r2: "replicate 2 None = [None, None :: result_type option]"
    by (simp add: numeral_eq_Suc)
  have ss: "seed_seq_generate example_mix (seed_seq_range [0xFFFFFFFE, 0xB]) [0, 0, 0] =
      [0xC, 0xD, 0xE]"
    by (simp add: seed_seq_generate_def seed_seq_range_def example_mix_def upt_small)
  note t = scratch_prefix_only [of kSteadyClock example_world example_mix "[0, 0, 0]"]
  have a: "fill_clock_times kSteadyClock example_world =
     Some (([Some 0xFFFFFFFE, Some 0xB, None, None], 2), example_world\<lparr>steady_reads := 1\<rparr>)"
    using t [THEN conjunct1] by (simp add: cw cr r2)
  note u = t [THEN conjunct2, THEN conjunct2, THEN conjunct2, THEN conjunct1, unfolded cw]
  have b: "fill_by_seed_seq example_mix ([Some 0xFFFFFFFE, Some 0xB, None, None], 2) [0, 0, 0] =
     Some [0xC, 0xD, 0xE]"
    using u [THEN spec, of "[Some 0xFFFFFFFE, Some 0xB, None, None]"] by (simp add: ss numeral_2_eq_2)
  have c: "fill_by_seed_seq example_mix
       ([Some 0xFFFFFFFE, Some 0xB, Some 0xDEAD, Some 0xBEEF], 2) [0, 0, 0] =
     Some [0xC, 0xD, 0xE]"
    using u [THEN spec, of "[Some 0xFFFFFFFE, Some 0xB, Some 0xDEAD, Some 0xBEEF]"]
    by (simp add: ss numeral_2_eq_2)
  show ?thesis using a b c by simp
qed

end
